theory Spec2Isabelle
  imports Complex_Main
begin

section \<open>Tab Audio Booster: the content script (content/content.js)\<close>

text \<open>
  The content script keeps one \<open>AudioBooster\<close> object per page. Its three fields
  (\<open>audioContext\<close>, \<open>mediaElements\<close>, \<open>gainValue\<close>) and the part of the browser it
  talks to (the Web Audio objects it allocates, which elements can still be bound to a
  source node, the calls of \<open>resume\<close>, the debug console) are threaded through every
  operation as one record. JavaScript runs each callback to completion, so every
  operation is a function from the state before to the state after; an operation that
  can end in an uncaught exception also returns the exception.
\<close>

subsection \<open>Data\<close>

text \<open>
  A media element, like every DOM node, is known by object identity only; identities are
  natural numbers. The value a message carries and the field \<open>gainValue\<close> are
  JavaScript values: a finite number, one of the three non-finite numbers, or
  \<open>undefined\<close> (a message without the property). Values of other kinds (strings,
  booleans, \<open>null\<close>, objects) reach an audio parameter converted to one of the four
  kinds of number, and are left out.
\<close>

type_synonym elem = nat

datatype jsvalue = Number real | NaN | PosInfinity | NegInfinity | Undefined

datatype AudioContextState = Suspended | Running | Closed

datatype exception = InvalidStateError | TypeError

text \<open>
  The parameters of Web Audio nodes are single-precision numbers. \<open>fround\<close> is the
  nearest single-precision number, ties to the even significand: the input is scaled by
  the unit in the last place of its binade (24 significant bits, the smallest exponent
  being \<open>-126\<close>) and rounded to an integer. Assigning \<open>param.value = v\<close> converts \<open>v\<close>
  this way, and throws a \<open>TypeError\<close> when \<open>v\<close> is not a finite number or rounds to
  \<open>2^128\<close> in magnitude.
\<close>

definition round_half_even :: "real \<Rightarrow> int" where
  "round_half_even q =
     (let f = \<lfloor>q\<rfloor>; d = q - of_int f
      in if d < 1 / 2 then f else if 1 / 2 < d then f + 1
         else if even f then f else f + 1)"

definition fround :: "real \<Rightarrow> real" where
  "fround x =
     (if x = 0 then 0
      else let e = max \<lfloor>log 2 \<bar>x\<bar>\<rfloor> (- 126);
               ulp = 2 powr (of_int e - 23)
           in of_int (round_half_even (x / ulp)) * ulp)"

definition float32_limit :: real where
  "float32_limit = 2 ^ 128 - 2 ^ 103"

fun to_float :: "jsvalue \<Rightarrow> exception + real" where
  "to_float (Number x) =
     (if \<bar>x\<bar> < float32_limit then Inr (fround x) else Inl TypeError)"
| "to_float NaN = Inl TypeError"
| "to_float PosInfinity = Inl TypeError"
| "to_float NegInfinity = Inl TypeError"
| "to_float Undefined = Inl TypeError"

record DynamicsCompressorNode =
  threshold :: real
  knee :: real
  ratio :: real
  attack :: real
  release :: real

text \<open>
  The object stored in the registry for one element: \<open>{ source, gainNode, compressor }\<close>.
  The source node is identified with the element it is bound to, \<open>gainNode\<close> holds
  \<open>gainNode.gain.value\<close>, and \<open>destination\<close> is the context whose output the
  compressor is connected to. Every call of \<open>createGain\<close> returns a fresh node, so no
  two chains share a gain node and the nodes are kept by value.
\<close>

record chain =
  source :: elem
  gainNode :: real
  compressor :: DynamicsCompressorNode
  destination :: nat

text \<open>
  \<open>audioContext\<close> is a reference (an index into \<open>contexts\<close>) or \<open>null\<close>;
  \<open>mediaElements\<close> is the JavaScript \<open>Map\<close>, kept as an association list in insertion
  order; \<open>gainValue\<close> holds whatever value was last passed to \<open>setGain\<close>.
  The rest is the platform: \<open>contexts\<close> are the states of the \<open>AudioContext\<close> objects
  constructed by this script so far; \<open>policy\<close> is the state the platform gives to a
  context constructed now; \<open>resumed\<close> lists the contexts on which \<open>resume()\<close> was called;
  \<open>captured\<close> are the objects for which \<open>createMediaElementSource\<close> throws (elements
  that already have a source node, of this script or of the page, and objects that are
  no media elements); \<open>console\<close> collects the errors passed to \<open>console.debug\<close>.
\<close>

record page =
  audioContext :: "nat option"
  mediaElements :: "(elem \<times> chain) list"
  gainValue :: jsvalue
  contexts :: "AudioContextState list"
  policy :: AudioContextState
  resumed :: "nat list"
  captured :: "elem set"
  console :: "exception list"

text \<open>
  DOM nodes as the mutation observer and \<open>querySelectorAll\<close> see them. An element has a
  \<open>nodeName\<close>, a local name, an identity and children, and the method
  \<open>querySelectorAll\<close>; text and comment nodes have neither children nor the method, and
  their \<open>nodeName\<close> is fixed. The \<open>nodeName\<close> of an element is its qualified name, put
  in upper case by the platform only for an HTML element of an HTML document: a
  \<open>video\<close> element has \<open>nodeName\<close> \<open>VIDEO\<close> in an HTML document and \<open>video\<close> in an
  XML (XHTML) document, and its local name is \<open>video\<close> in both.
\<close>

datatype node =
  Element string string elem "node list"
| Text elem
| Comment elem

record mutation =
  addedNodes :: "node list"

record message =
  msg_type :: string
  msg_value :: jsvalue

datatype response =
  SetGainResponse bool nat
| StatusResponse jsvalue nat

datatype event =
  Message message
| Mutations "mutation list"
| HostContextState nat AudioContextState
| HostPolicy AudioContextState
| PageCapture elem

subsection \<open>The JavaScript Map\<close>

definition Map_has :: "(elem \<times> chain) list \<Rightarrow> elem \<Rightarrow> bool" where
  "Map_has m k = (k \<in> set (map fst m))"

fun Map_set :: "(elem \<times> chain) list \<Rightarrow> elem \<Rightarrow> chain \<Rightarrow> (elem \<times> chain) list" where
  "Map_set [] k v = [(k, v)]"
| "Map_set (p # ps) k v = (if fst p = k then (k, v) # ps else p # Map_set ps k v)"

definition Map_size :: "(elem \<times> chain) list \<Rightarrow> nat" where
  "Map_size m = length m"

fun Map_get :: "(elem \<times> chain) list \<Rightarrow> elem \<Rightarrow> chain option" where
  "Map_get [] k = None"
| "Map_get (p # ps) k = (if fst p = k then Some (snd p) else Map_get ps k)"

text \<open>
  \<open>forEach\<close> of a \<open>NodeList\<close> or array with a callback that does not throw: the
  callback runs on each entry in order.
\<close>

fun forEach :: "'a list \<Rightarrow> ('a \<Rightarrow> page \<Rightarrow> page) \<Rightarrow> page \<Rightarrow> page" where
  "forEach [] f s = s"
| "forEach (x # xs) f s = forEach xs f (f x s)"

subsection \<open>The platform\<close>

text \<open>
  \<open>new AudioContext()\<close> allocates a fresh context; the state it starts in is the
  platform's choice (\<open>policy\<close>), and the platform may change it later (event
  \<open>HostContextState\<close>).
\<close>

definition new_AudioContext :: "page \<Rightarrow> nat \<times> page" where
  "new_AudioContext s =
     (length (contexts s), s\<lparr>contexts := contexts s @ [policy s]\<rparr>)"

text \<open>
  \<open>resume()\<close> returns a promise at once, which the script does not await; whether and
  when the context becomes running is the platform's (event \<open>HostContextState\<close>). The
  call itself only leaves the request.
\<close>

definition resume :: "nat \<Rightarrow> page \<Rightarrow> page" where
  "resume c s = s\<lparr>resumed := resumed s @ [c]\<rparr>"

text \<open>
  \<open>createMediaElementSource\<close> throws for the objects in \<open>captured\<close>, and binds the
  element otherwise, after which it cannot be bound again. The script only logs the
  error, and the model gives it one name for both kinds of object in \<open>captured\<close>.
\<close>

definition createMediaElementSource :: "nat \<Rightarrow> elem \<Rightarrow> page \<Rightarrow> exception + page" where
  "createMediaElementSource context element s =
     (if element \<in> captured s then Inl InvalidStateError
      else Inr (s\<lparr>captured := insert element (captured s)\<rparr>))"

definition createGain :: "nat \<Rightarrow> real" where
  "createGain context = 1"

definition createDynamicsCompressor :: "nat \<Rightarrow> DynamicsCompressorNode" where
  "createDynamicsCompressor context =
     \<lparr>threshold = -24, knee = 30, ratio = 12, attack = fround (3 / 1000),
      release = 1 / 4\<rparr>"

fun nodeName :: "node \<Rightarrow> string" where
  "nodeName (Element n l i cs) = n"
| "nodeName (Text i) = ''#text''"
| "nodeName (Comment i) = ''#comment''"

fun ident :: "node \<Rightarrow> elem" where
  "ident (Element n l i cs) = i"
| "ident (Text i) = i"
| "ident (Comment i) = i"

text \<open>
  The selector \<open>'audio, video'\<close> matches an element by its local name.
\<close>

definition matches_audio_video :: "string \<Rightarrow> bool" where
  "matches_audio_video l = (l = ''audio'' \<or> l = ''video'')"

text \<open>
  The elements of a subtree that match the selector, the root included, in document
  order.
\<close>

fun matching_in :: "node \<Rightarrow> elem list" where
  "matching_in (Element n l i cs) =
     (if matches_audio_video l then [i] else []) @ concat (map matching_in cs)"
| "matching_in (Text i) = []"
| "matching_in (Comment i) = []"

text \<open>
  \<open>node.querySelectorAll('audio, video')\<close>: the matching descendants of the node, the
  node itself excluded; \<open>None\<close> where the node has no such method.
\<close>

fun querySelectorAll :: "node \<Rightarrow> elem list option" where
  "querySelectorAll (Element n l i cs) = Some (concat (map matching_in cs))"
| "querySelectorAll (Text i) = None"
| "querySelectorAll (Comment i) = None"

text \<open>
  \<open>document.querySelectorAll('audio, video')\<close>; the document is given by its child
  nodes, and always has the method.
\<close>

definition document_querySelectorAll :: "node list \<Rightarrow> elem list" where
  "document_querySelectorAll document = concat (map matching_in document)"

subsection \<open>class AudioBooster\<close>

definition getAudioContext :: "page \<Rightarrow> nat \<times> page" where
  "getAudioContext s =
     (case audioContext s of
        None \<Rightarrow>
          (case new_AudioContext s of (c, s1) \<Rightarrow> (c, s1\<lparr>audioContext := Some c\<rparr>))
      | Some c \<Rightarrow> (c, s))"

text \<open>
  \<open>getAudioContext\<close> is called before the \<open>try\<close>. Inside the \<open>try\<close> two statements can
  throw: \<open>createMediaElementSource\<close>, and the assignment
  \<open>gainNode.gain.value = this.gainValue\<close>, which comes after the element is bound and
  before it is stored in the registry. The five assignments to the compressor's
  parameters are of constants within range; they store the constant in single
  precision. The \<open>catch\<close> logs the error and returns normally.
\<close>

definition processMediaElement :: "elem \<Rightarrow> page \<Rightarrow> page" where
  "processMediaElement element s =
     (if Map_has (mediaElements s) element then s
      else
        (case getAudioContext s of (context, s1) \<Rightarrow>
           (case createMediaElementSource context element s1 of
              Inl error \<Rightarrow> s1\<lparr>console := console s1 @ [error]\<rparr>
            | Inr s2 \<Rightarrow>
                (let gainNode0 = createGain context;
                     compressor0 = createDynamicsCompressor context;
                     compressor1 = compressor0\<lparr>threshold := fround (- 6), knee := fround 30,
                                     ratio := fround 12, attack := fround (3 / 1000),
                                     release := fround (1 / 4)\<rparr>
                 in (case to_float (gainValue s2) of
                       Inl error \<Rightarrow> s2\<lparr>console := console s2 @ [error]\<rparr>
                     | Inr gainNode1 \<Rightarrow>
                         s2\<lparr>mediaElements :=
                              Map_set (mediaElements s2) element
                                \<lparr>source = element, gainNode = gainNode1,
                                 compressor = compressor1, destination = context\<rparr>\<rparr>)))))"

definition processExistingMedia :: "node list \<Rightarrow> page \<Rightarrow> page" where
  "processExistingMedia document s =
     forEach (document_querySelectorAll document) processMediaElement s"

text \<open>The body of the mutation observer's callback for one added node.\<close>

definition processAddedNode :: "node \<Rightarrow> page \<Rightarrow> page" where
  "processAddedNode node s =
     (let s1 = (if nodeName node = ''AUDIO'' \<or> nodeName node = ''VIDEO''
                then processMediaElement (ident node) s else s)
      in (case querySelectorAll node of
            None \<Rightarrow> s1
          | Some elements \<Rightarrow> forEach elements processMediaElement s1))"

definition observer_callback :: "mutation list \<Rightarrow> page \<Rightarrow> page" where
  "observer_callback mutations s =
     forEach mutations (\<lambda>mutation. forEach (addedNodes mutation) processAddedNode) s"

text \<open>
  The loop \<open>this.mediaElements.forEach(({ gainNode }) => { gainNode.gain.value = value })\<close>:
  the registry after, and the exception that ended the loop, if any. An assignment that
  throws leaves this chain and all later ones as they were.
\<close>

fun setGain_forEach ::
  "jsvalue \<Rightarrow> (elem \<times> chain) list \<Rightarrow> (elem \<times> chain) list \<times> exception option" where
  "setGain_forEach v [] = ([], None)"
| "setGain_forEach v (p # ps) =
     (case to_float v of
        Inl error \<Rightarrow> (p # ps, Some error)
      | Inr g \<Rightarrow>
          (case setGain_forEach v ps of
             (ps', r) \<Rightarrow> ((fst p, (snd p)\<lparr>gainNode := g\<rparr>) # ps', r)))"

text \<open>
  \<open>setGain\<close>: the state after, and the exception it ended with, if any.
  \<open>this.audioContext.state\<close> is read through the reference; in every state the script
  reaches the reference points into \<open>contexts\<close> (lemma \<open>one_pipeline_run\<close> below).
\<close>

definition setGain :: "jsvalue \<Rightarrow> page \<Rightarrow> page \<times> exception option" where
  "setGain v s =
     (let s1 = s\<lparr>gainValue := v\<rparr>;
          s2 = (case audioContext s1 of
                  None \<Rightarrow> s1
                | Some c \<Rightarrow> if contexts s1 ! c = Suspended then resume c s1 else s1)
      in (case setGain_forEach v (mediaElements s2) of
            (m, r) \<Rightarrow> (s2\<lparr>mediaElements := m\<rparr>, r)))"

definition getMediaCount :: "page \<Rightarrow> nat" where
  "getMediaCount s = Map_size (mediaElements s)"

text \<open>
  The listener registered by \<open>setupMessageListener\<close>. The result is the state after,
  the arguments of the calls of \<open>sendResponse\<close> in order, and how the listener ended:
  \<open>Inr b\<close> when it returned \<open>b\<close> to the messaging system (\<open>true\<close> asks it to keep the
  channel open for a response that is still to come), \<open>Inl e\<close> when the exception \<open>e\<close>
  left it.
\<close>

definition listener :: "message \<Rightarrow> page \<Rightarrow> page \<times> response list \<times> (exception + bool)" where
  "listener m s =
     (if msg_type m = ''SET_GAIN'' then
        (case setGain (msg_value m) s of
           (s1, Some error) \<Rightarrow> (s1, [], Inl error)
         | (s1, None) \<Rightarrow> (s1, [SetGainResponse True (getMediaCount s1)], Inr True))
      else if msg_type m = ''GET_STATUS'' then
        (s, [StatusResponse (gainValue s) (getMediaCount s)], Inr True)
      else (s, [], Inr True))"

text \<open>
  The constructor on a page whose document is \<open>document\<close>, where createMediaElementSource
  throws for the objects \<open>owned\<close> and a new context starts in the state \<open>initial\<close>. The
  two handlers it installs are the events \<open>Mutations\<close> and \<open>Message\<close> below.
\<close>

definition constructor :: "node list \<Rightarrow> elem set \<Rightarrow> AudioContextState \<Rightarrow> page" where
  "constructor document owned initial =
     processExistingMedia document
       \<lparr>audioContext = None, mediaElements = [], gainValue = Number 1,
        contexts = [], policy = initial, resumed = [], captured = owned, console = []\<rparr>"

fun step :: "event \<Rightarrow> page \<Rightarrow> page" where
  "step (Message m) s = fst (listener m s)"
| "step (Mutations ms) s = observer_callback ms s"
| "step (HostContextState c st) s = s\<lparr>contexts := (contexts s)[c := st]\<rparr>"
| "step (HostPolicy st) s = s\<lparr>policy := st\<rparr>"
| "step (PageCapture e) s = s\<lparr>captured := insert e (captured s)\<rparr>"

fun run :: "event list \<Rightarrow> page \<Rightarrow> page" where
  "run [] s = s"
| "run (ev # evs) s = run evs (step ev s)"

subsection \<open>Predicates and sample pages used below\<close>

definition is_SET_GAIN :: "event \<Rightarrow> bool" where
  "is_SET_GAIN ev = (case ev of Message m \<Rightarrow> msg_type m = ''SET_GAIN'' | _ \<Rightarrow> False)"

text \<open>The values that an audio parameter accepts.\<close>

definition convertible :: "jsvalue \<Rightarrow> bool" where
  "convertible v = (case to_float v of Inl error \<Rightarrow> False | Inr g \<Rightarrow> True)"

text \<open>
  There is at most one context, and the field \<open>audioContext\<close> refers to it exactly when
  it exists.
\<close>

definition one_pipeline :: "page \<Rightarrow> bool" where
  "one_pipeline s =
     (length (contexts s) \<le> 1 \<and>
      audioContext s = (if contexts s = [] then None else Some 0))"

text \<open>
  An HTML page with two videos, none of them bound by the page itself; new contexts
  start suspended.
\<close>

definition example_document :: "node list" where
  "example_document =
     [Element ''HTML'' ''html'' 1 [Element ''BODY'' ''body'' 2
        [Element ''VIDEO'' ''video'' 3 [], Text 4, Element ''VIDEO'' ''video'' 5 []]]]"

definition example_page :: page where
  "example_page = constructor example_document {} Suspended"

text \<open>A page without media on which the page's own script has bound element 7.\<close>

definition owned_page :: page where
  "owned_page = constructor [Element ''HTML'' ''html'' 1 []] {7} Suspended"

text \<open>
  A video element as an XML (XHTML) document presents it: the selector matches it, and
  its \<open>nodeName\<close> is in lower case.
\<close>

definition xhtml_video :: node where
  "xhtml_video = Element ''video'' ''video'' 20 []"

definition example_events :: "event list" where
  "example_events =
     [Message \<lparr>msg_type = ''GET_STATUS'', msg_value = Undefined\<rparr>,
      HostContextState 0 Running,
      Mutations [\<lparr>addedNodes = [Text 16, Element ''VIDEO'' ''video'' 17 []]\<rparr>],
      PageCapture 8]"

section \<open>Properties\<close>

subsection \<open>Single precision\<close>

lemma round_half_even_of_int: "round_half_even (of_int m) = m"
  by (simp add: round_half_even_def)

text \<open>A number with a 24-bit significand and an exponent in range is kept as it is.\<close>

lemma fround_exact:
  assumes x: "x = of_int m * 2 powr of_int k"
    and lo: "2 ^ 23 \<le> \<bar>m\<bar>" and hi: "\<bar>m\<bar> < 2 ^ 24" and k: "- 149 \<le> k"
  shows "fround x = x"
proof -
  have m0: "m \<noteq> 0" using lo by auto
  have absx: "\<bar>x\<bar> = of_int \<bar>m\<bar> * 2 powr of_int k"
    by (simp add: x abs_mult)
  have x0: "x \<noteq> 0" using m0 by (simp add: x)
  have "2 powr of_int (23 + k) \<le> \<bar>x\<bar>"
  proof -
    have "(2::real) powr of_int (23 + k) = 2 ^ 23 * 2 powr of_int k"
      by (simp add: powr_add)
    also have "\<dots> \<le> of_int \<bar>m\<bar> * 2 powr of_int k"
    proof (rule mult_right_mono)
      have "(2::real) ^ 23 = of_int (2 ^ 23)" by simp
      also have "\<dots> \<le> of_int \<bar>m\<bar>" using lo by (simp only: of_int_le_iff)
      finally show "(2::real) ^ 23 \<le> of_int \<bar>m\<bar>" .
    qed simp
    finally show ?thesis by (simp add: absx)
  qed
  moreover have "\<bar>x\<bar> < 2 powr of_int ((23 + k) + 1)"
  proof -
    have "of_int \<bar>m\<bar> < (of_int (2 ^ 24) :: real)" using hi by (simp only: of_int_less_iff)
    then have "of_int \<bar>m\<bar> * 2 powr of_int k < (2::real) ^ 24 * 2 powr of_int k"
      by (intro mult_strict_right_mono) simp_all
    also have "\<dots> = 2 powr of_int ((23 + k) + 1)"
      by (simp add: powr_add)
    finally show ?thesis by (simp add: absx)
  qed
  ultimately have "\<lfloor>log 2 \<bar>x\<bar>\<rfloor> = 23 + k"
    using x0 by (subst floor_log_eq_powr_iff) simp_all
  then have e: "max \<lfloor>log 2 \<bar>x\<bar>\<rfloor> (- 126) = 23 + k"
    using k by simp
  have q: "x / 2 powr of_int k = of_int m"
    by (simp add: x)
  have u: "real_of_int (23 + k) - 23 = of_int k"
    by simp
  have "fround x = of_int (round_half_even (x / 2 powr of_int k)) * 2 powr of_int k"
    unfolding fround_def Let_def e u using x0 by simp
  also have "\<dots> = x"
    unfolding q round_half_even_of_int by (simp add: x)
  finally show ?thesis .
qed

lemma fround_1: "fround 1 = 1"
  using fround_exact [of 1 "2 ^ 23" "- 23"] by (simp add: powr_minus_divide)

lemma fround_2: "fround 2 = 2"
  using fround_exact [of 2 "2 ^ 23" "- 22"] by (simp add: powr_minus_divide)

lemma fround_3: "fround 3 = 3"
  using fround_exact [of 3 "3 * 2 ^ 22" "- 22"] by (simp add: powr_minus_divide)



text \<open>One tenth is not a single-precision number.\<close>

lemma fround_tenth: "fround (1 / 10) = 13421773 / 134217728"
proof -
  have "\<lfloor>log 2 \<bar>1 / 10 :: real\<bar>\<rfloor> = - 4"
    by (subst floor_log_eq_powr_iff) (simp_all add: powr_minus_divide)
  then have e: "max \<lfloor>log 2 \<bar>1 / 10 :: real\<bar>\<rfloor> (- 126) = - 4"
    by simp
  have u: "(2::real) powr (of_int (- 4) - 23) = 1 / 134217728"
    by (simp add: powr_minus_divide)
  have f: "\<lfloor>67108864 / 5 :: real\<rfloor> = 13421772"
    by (rule floor_unique) simp_all
  have r: "round_half_even (67108864 / 5) = 13421773"
    unfolding round_half_even_def Let_def f by simp
  show ?thesis
    unfolding fround_def Let_def e u by (simp add: r)
qed

lemma to_float_big: "to_float (Number (10 ^ 39)) = Inl TypeError"
  by (simp add: float32_limit_def)

lemma to_float_in_range: "\<bar>x\<bar> < float32_limit \<Longrightarrow> to_float (Number x) = Inr (fround x)"
  by simp

lemma float32_limit_samples:
  "\<bar>1::real\<bar> < float32_limit" "\<bar>2::real\<bar> < float32_limit" "\<bar>3::real\<bar> < float32_limit"
  "\<bar>- 2::real\<bar> < float32_limit" "\<bar>0::real\<bar> < float32_limit"
  "\<bar>1 / 10::real\<bar> < float32_limit"
  by (simp_all add: float32_limit_def)

subsection \<open>The Map and the loops\<close>

lemma Map_set_fresh: "k \<notin> set (map fst m) \<Longrightarrow> Map_set m k v = m @ [(k, v)]"
  by (induction m) auto

lemma Map_get_append_fresh: "k \<notin> set (map fst m) \<Longrightarrow> Map_get (m @ [(k, v)]) k = Some v"
  by (induction m) auto

lemma Map_get_absent: "k \<notin> set (map fst m) \<Longrightarrow> Map_get m k = None"
  by (induction m) auto

lemma count_list_distinct:
  "distinct xs \<Longrightarrow> count_list xs x = (if x \<in> set xs then 1 else 0)"
  by (induction xs) auto

lemma forEach_append: "forEach (xs @ ys) f s = forEach ys f (forEach xs f s)"
  by (induction xs arbitrary: s) simp_all

subsection \<open>The four outcomes of processMediaElement\<close>

lemma getAudioContext_frame:
  "mediaElements (snd (getAudioContext s)) = mediaElements s"
  "gainValue (snd (getAudioContext s)) = gainValue s"
  "captured (snd (getAudioContext s)) = captured s"
  "console (snd (getAudioContext s)) = console s"
  "resumed (snd (getAudioContext s)) = resumed s"
  "policy (snd (getAudioContext s)) = policy s"
  by (simp_all add: getAudioContext_def new_AudioContext_def split: option.splits)

lemma processMediaElement_registered:
  "Map_has (mediaElements s) element \<Longrightarrow> processMediaElement element s = s"
  by (simp add: processMediaElement_def)

lemma processMediaElement_unbindable:
  "\<not> Map_has (mediaElements s) element \<Longrightarrow> element \<in> captured s \<Longrightarrow>
   processMediaElement element s =
     (snd (getAudioContext s))\<lparr>console := console s @ [InvalidStateError]\<rparr>"
  by (simp add: processMediaElement_def getAudioContext_def new_AudioContext_def
      createMediaElementSource_def split: option.splits)

lemma processMediaElement_rejected:
  "\<not> Map_has (mediaElements s) element \<Longrightarrow> element \<notin> captured s \<Longrightarrow>
   to_float (gainValue s) = Inl error \<Longrightarrow>
   processMediaElement element s =
     (snd (getAudioContext s))
       \<lparr>captured := insert element (captured s), console := console s @ [error]\<rparr>"
  by (simp add: processMediaElement_def getAudioContext_def new_AudioContext_def
      createMediaElementSource_def Let_def split: option.splits)

lemma processMediaElement_bindable:
  "\<not> Map_has (mediaElements s) element \<Longrightarrow> element \<notin> captured s \<Longrightarrow>
   to_float (gainValue s) = Inr g \<Longrightarrow>
   processMediaElement element s =
     (snd (getAudioContext s))
       \<lparr>captured := insert element (captured s),
        mediaElements := mediaElements s @
          [(element, \<lparr>source = element, gainNode = g,
              compressor = \<lparr>threshold = fround (- 6), knee = fround 30, ratio = fround 12,
                             attack = fround (3 / 1000), release = fround (1 / 4)\<rparr>,
              destination = fst (getAudioContext s)\<rparr>)]\<rparr>"
  by (simp add: processMediaElement_def getAudioContext_def new_AudioContext_def
      createMediaElementSource_def createGain_def createDynamicsCompressor_def
      Map_has_def Map_set_fresh Let_def split: option.splits)

lemma processMediaElement_cases:
  obtains (registered) "Map_has (mediaElements s) element" "processMediaElement element s = s"
  | (unbindable) "\<not> Map_has (mediaElements s) element" "element \<in> captured s"
      "processMediaElement element s =
         (snd (getAudioContext s))\<lparr>console := console s @ [InvalidStateError]\<rparr>"
  | (rejected) error where "\<not> Map_has (mediaElements s) element" "element \<notin> captured s"
      "\<not> convertible (gainValue s)"
      "processMediaElement element s =
         (snd (getAudioContext s))
           \<lparr>captured := insert element (captured s), console := console s @ [error]\<rparr>"
  | (bindable) g where "\<not> Map_has (mediaElements s) element" "element \<notin> captured s"
      "convertible (gainValue s)" "to_float (gainValue s) = Inr g"
      "processMediaElement element s =
         (snd (getAudioContext s))
           \<lparr>captured := insert element (captured s),
            mediaElements := mediaElements s @
              [(element, \<lparr>source = element, gainNode = g,
                  compressor = \<lparr>threshold = fround (- 6), knee = fround 30, ratio = fround 12,
                                 attack = fround (3 / 1000), release = fround (1 / 4)\<rparr>,
                  destination = fst (getAudioContext s)\<rparr>)]\<rparr>"
proof (cases "Map_has (mediaElements s) element")
  case True
  then show ?thesis
    using processMediaElement_registered registered by blast
next
  case nh: False
  show ?thesis
  proof (cases "element \<in> captured s")
    case True
    with nh show ?thesis
      using processMediaElement_unbindable unbindable by blast
  next
    case nc: False
    show ?thesis
    proof (cases "to_float (gainValue s)")
      case (Inl error)
      with nh nc show ?thesis
        using processMediaElement_rejected [of s element error] rejected [of error]
        by (simp add: convertible_def)
    next
      case (Inr g)
      with nh nc show ?thesis
        using processMediaElement_bindable [of s element g] bindable [of g]
        by (simp add: convertible_def)
    qed
  qed
qed

lemma processMediaElement_gainValue:
  "gainValue (processMediaElement element s) = gainValue s"
  by (rule processMediaElement_cases[where s=s and element=element])
     (simp_all add: getAudioContext_frame)

lemma processMediaElement_keys:
  "map fst (mediaElements (processMediaElement element s)) =
     (if Map_has (mediaElements s) element \<or> element \<in> captured s \<or>
         \<not> convertible (gainValue s)
      then map fst (mediaElements s) else map fst (mediaElements s) @ [element])"
  by (rule processMediaElement_cases[where s=s and element=element])
     (simp_all add: getAudioContext_frame)

lemma processMediaElement_captured:
  "captured (processMediaElement element s) =
     (if Map_has (mediaElements s) element then captured s
      else insert element (captured s))"
  by (rule processMediaElement_cases[where s=s and element=element])
     (auto simp add: getAudioContext_frame)

lemma processMediaElement_distinct:
  "distinct (map fst (mediaElements s)) \<Longrightarrow>
   distinct (map fst (mediaElements (processMediaElement element s)))"
  by (simp add: processMediaElement_keys Map_has_def)

lemma forEach_gainValue:
  "gainValue (forEach es processMediaElement s) = gainValue s"
  by (induction es arbitrary: s) (simp_all add: processMediaElement_gainValue)

lemma forEach_distinct:
  "distinct (map fst (mediaElements s)) \<Longrightarrow>
   distinct (map fst (mediaElements (forEach es processMediaElement s)))"
  by (induction es arbitrary: s) (simp_all add: processMediaElement_distinct)

lemma repeat_registered:
  "Map_has (mediaElements s) e \<Longrightarrow> forEach (replicate n e) processMediaElement s = s"
  by (induction n) (simp_all add: processMediaElement_registered)

lemma repeat_unbindable:
  "\<not> Map_has (mediaElements s) e \<Longrightarrow> e \<in> captured s \<Longrightarrow>
   mediaElements (forEach (replicate n e) processMediaElement s) = mediaElements s"
proof (induction n arbitrary: s)
  case 0
  then show ?case by simp
next
  case (Suc n)
  let ?t = "processMediaElement e s"
  have "mediaElements ?t = mediaElements s" "captured ?t = captured s"
    using Suc.prems by (simp_all add: processMediaElement_unbindable getAudioContext_frame)
  with Suc.prems Suc.IH [of ?t] show ?case by simp
qed

subsection \<open>The mutation observer as one loop over the elements it finds\<close>

text \<open>
  What the callback finds for one added node: the node itself when its \<open>nodeName\<close> is
  \<open>AUDIO\<close> or \<open>VIDEO\<close>, then the descendants that match the selector.
\<close>

lemma processAddedNode_eq:
  "processAddedNode node s =
     forEach ((if nodeName node = ''AUDIO'' \<or> nodeName node = ''VIDEO'' then [ident node] else [])
               @ (case querySelectorAll node of None \<Rightarrow> [] | Some elements \<Rightarrow> elements))
       processMediaElement s"
  by (cases node) (simp_all add: processAddedNode_def forEach_append)

lemma observer_callback_gainValue: "gainValue (observer_callback ms s) = gainValue s"
proof -
  have n: "gainValue (forEach ns processAddedNode t) = gainValue t" for ns t
    by (induction ns arbitrary: t) (simp_all add: processAddedNode_eq forEach_gainValue)
  show ?thesis
    unfolding observer_callback_def
    by (induction ms arbitrary: s) (simp_all add: n)
qed

lemma observer_callback_distinct:
  assumes "distinct (map fst (mediaElements s))"
  shows "distinct (map fst (mediaElements (observer_callback ms s)))"
proof -
  have n: "distinct (map fst (mediaElements t)) \<Longrightarrow>
           distinct (map fst (mediaElements (forEach ns processAddedNode t)))" for ns t
    by (induction ns arbitrary: t) (simp_all add: processAddedNode_eq forEach_distinct)
  show ?thesis
    using assms unfolding observer_callback_def
    by (induction ms arbitrary: s) (simp_all add: n)
qed

subsection \<open>setGain\<close>

lemma setGain_forEach_accepted:
  "to_float v = Inr g \<Longrightarrow>
   setGain_forEach v m = (map (\<lambda>p. (fst p, (snd p)\<lparr>gainNode := g\<rparr>)) m, None)"
  by (induction m) simp_all

lemma setGain_forEach_rejected:
  "to_float v = Inl error \<Longrightarrow>
   setGain_forEach v m = (m, if m = [] then None else Some error)"
  by (cases m) simp_all

lemma setGain_forEach_keys: "map fst (fst (setGain_forEach v m)) = map fst m"
  by (cases "to_float v")
     (simp_all add: setGain_forEach_accepted setGain_forEach_rejected comp_def)

lemma setGain_gainValue: "gainValue (fst (setGain v s)) = v"
  by (simp add: setGain_def resume_def Let_def split: option.splits prod.splits)

lemma setGain_keys: "map fst (mediaElements (fst (setGain v s))) = map fst (mediaElements s)"
proof -
  have "mediaElements (fst (setGain v s)) = fst (setGain_forEach v (mediaElements s))"
    by (simp add: setGain_def resume_def Let_def split: option.splits prod.splits)
  then show ?thesis
    by (simp add: setGain_forEach_keys)
qed

lemma setGain_accepted:
  assumes "to_float v = Inr g"
  shows "snd (setGain v s) = None"
    and "mediaElements (fst (setGain v s)) =
           map (\<lambda>p. (fst p, (snd p)\<lparr>gainNode := g\<rparr>)) (mediaElements s)"
  using assms
  by (simp_all add: setGain_def resume_def Let_def setGain_forEach_accepted
      split: option.splits)

lemma setGain_rejected:
  assumes "to_float v = Inl error"
  shows "snd (setGain v s) = (if mediaElements s = [] then None else Some error)"
    and "mediaElements (fst (setGain v s)) = mediaElements s"
  using assms
  by (simp_all add: setGain_def resume_def Let_def setGain_forEach_rejected
      split: option.splits)

lemma setGain_frame:
  "captured (fst (setGain v s)) = captured s"
  "console (fst (setGain v s)) = console s"
  "audioContext (fst (setGain v s)) = audioContext s"
  "contexts (fst (setGain v s)) = contexts s"
  "policy (fst (setGain v s)) = policy s"
  by (simp_all add: setGain_def resume_def Let_def split: option.splits prod.splits)

lemma setGain_resumed:
  "resumed (fst (setGain v s)) =
     (case audioContext s of
        None \<Rightarrow> resumed s
      | Some c \<Rightarrow> if contexts s ! c = Suspended then resumed s @ [c] else resumed s)"
  by (simp add: setGain_def resume_def Let_def split: option.splits prod.splits)

lemma listener_state:
  "fst (listener m s) = (if msg_type m = ''SET_GAIN'' then fst (setGain (msg_value m) s) else s)"
  by (simp add: listener_def split: prod.splits option.splits)

lemma step_gainValue: "\<not> is_SET_GAIN ev \<Longrightarrow> gainValue (step ev s) = gainValue s"
  by (cases ev)
     (simp_all add: is_SET_GAIN_def listener_state observer_callback_gainValue)

lemma run_gainValue:
  "\<forall>ev \<in> set evs. \<not> is_SET_GAIN ev \<Longrightarrow> gainValue (run evs s) = gainValue s"
  by (induction evs arbitrary: s) (simp_all add: step_gainValue)

subsection \<open>One shared context\<close>

lemma one_pipeline_getAudioContext:
  "one_pipeline s \<Longrightarrow> one_pipeline (snd (getAudioContext s))"
  by (auto simp add: one_pipeline_def getAudioContext_def new_AudioContext_def
      split: option.splits if_splits)

lemma one_pipeline_frame:
  "audioContext t = audioContext s \<Longrightarrow> length (contexts t) = length (contexts s) \<Longrightarrow>
   one_pipeline s \<Longrightarrow> one_pipeline t"
  by (auto simp add: one_pipeline_def)

lemma one_pipeline_processMediaElement:
  assumes "one_pipeline s"
  shows "one_pipeline (processMediaElement element s)"
proof -
  let ?t = "snd (getAudioContext s)"
  have t: "one_pipeline ?t"
    using assms by (rule one_pipeline_getAudioContext)
  have "audioContext (processMediaElement element s) = audioContext ?t \<and>
        length (contexts (processMediaElement element s)) = length (contexts ?t)"
    if "\<not> Map_has (mediaElements s) element"
    by (rule processMediaElement_cases[where s=s and element=element])
       (use that in simp_all)
  with t assms show ?thesis
    by (cases "Map_has (mediaElements s) element")
       (auto simp add: processMediaElement_registered intro: one_pipeline_frame)
qed

lemma one_pipeline_forEach:
  "one_pipeline s \<Longrightarrow> one_pipeline (forEach es processMediaElement s)"
  by (induction es arbitrary: s) (simp_all add: one_pipeline_processMediaElement)

lemma one_pipeline_observer_callback:
  assumes "one_pipeline s"
  shows "one_pipeline (observer_callback ms s)"
proof -
  have n: "one_pipeline t \<Longrightarrow> one_pipeline (forEach ns processAddedNode t)" for ns t
    by (induction ns arbitrary: t) (simp_all add: processAddedNode_eq one_pipeline_forEach)
  show ?thesis
    using assms unfolding observer_callback_def
    by (induction ms arbitrary: s) (simp_all add: n)
qed

lemma one_pipeline_setGain: "one_pipeline s \<Longrightarrow> one_pipeline (fst (setGain v s))"
  by (rule one_pipeline_frame [of _ s]) (simp_all add: setGain_frame)

lemma one_pipeline_step:
  assumes "one_pipeline s"
  shows "one_pipeline (step ev s)"
proof (cases ev)
  case (Message m)
  with assms show ?thesis
    by (simp add: listener_state one_pipeline_setGain)
next
  case (Mutations ms)
  with assms show ?thesis
    by (simp add: one_pipeline_observer_callback)
next
  case (HostContextState c st)
  with assms show ?thesis
    by (simp add: one_pipeline_def)
next
  case (HostPolicy st)
  with assms show ?thesis
    by (simp add: one_pipeline_def)
next
  case (PageCapture e)
  with assms show ?thesis
    by (simp add: one_pipeline_def)
qed

lemma one_pipeline_run: "one_pipeline s \<Longrightarrow> one_pipeline (run evs s)"
  by (induction evs arbitrary: s) (simp_all add: one_pipeline_step)

lemma one_pipeline_constructor: "one_pipeline (constructor document owned initial)"
proof -
  have "one_pipeline \<lparr>audioContext = None, mediaElements = [], gainValue = Number 1,
        contexts = [], policy = initial, resumed = [], captured = owned, console = []\<rparr>"
    by (simp add: one_pipeline_def)
  then show ?thesis
    unfolding constructor_def processExistingMedia_def
    by (rule one_pipeline_forEach)
qed

subsection \<open>The registry never holds an element twice\<close>

lemma step_distinct:
  assumes "distinct (map fst (mediaElements s))"
  shows "distinct (map fst (mediaElements (step ev s)))"
proof (cases ev)
  case (Message m)
  with assms show ?thesis
    by (simp add: listener_state setGain_keys)
next
  case (Mutations ms)
  with assms show ?thesis
    by (simp add: observer_callback_distinct)
next
  case (HostContextState c st)
  with assms show ?thesis by simp
next
  case (HostPolicy st)
  with assms show ?thesis by simp
next
  case (PageCapture e)
  with assms show ?thesis by simp
qed

lemma reachable_distinct:
  "distinct (map fst (mediaElements (run evs (constructor document owned initial))))"
proof -
  have "distinct (map fst (mediaElements s)) \<Longrightarrow> distinct (map fst (mediaElements (run evs s)))"
    for s
    by (induction evs arbitrary: s) (simp_all add: step_distinct)
  moreover have "distinct (map fst (mediaElements (constructor document owned initial)))"
    unfolding constructor_def processExistingMedia_def
    by (rule forEach_distinct) simp
  ultimately show ?thesis by blast
qed

subsection \<open>The sample pages, evaluated\<close>

lemmas eval_defs = constructor_def processExistingMedia_def document_querySelectorAll_def
  processMediaElement_def getAudioContext_def new_AudioContext_def
  createMediaElementSource_def createGain_def createDynamicsCompressor_def
  Map_has_def matches_audio_video_def Let_def float32_limit_def

lemma example_page_eq: "example_page =
  \<lparr>audioContext = Some 0,
   mediaElements =
     [(3, \<lparr>source = 3, gainNode = 1,
           compressor = \<lparr>threshold = fround (- 6), knee = fround 30, ratio = fround 12,
                          attack = fround (3 / 1000), release = fround (1 / 4)\<rparr>,
           destination = 0\<rparr>),
      (5, \<lparr>source = 5, gainNode = 1,
           compressor = \<lparr>threshold = fround (- 6), knee = fround 30, ratio = fround 12,
                          attack = fround (3 / 1000), release = fround (1 / 4)\<rparr>,
           destination = 0\<rparr>)],
   gainValue = Number 1, contexts = [Suspended], policy = Suspended, resumed = [],
   captured = {3, 5}, console = []\<rparr>"
  by (simp add: example_page_def example_document_def eval_defs insert_commute fround_1)

lemma owned_page_eq: "owned_page =
  \<lparr>audioContext = None, mediaElements = [], gainValue = Number 1, contexts = [],
   policy = Suspended, resumed = [], captured = {7}, console = []\<rparr>"
  by (simp add: owned_page_def eval_defs)

lemmas run_defs = listener_def setGain_def resume_def getMediaCount_def Map_size_def
  observer_callback_def processAddedNode_def

section \<open>The claims\<close>

text \<open>
  C1 (as amended). For every positive gain factor \<open>g\<close> and every state, \<open>setGain g\<close>
  leaves the Gain State at \<open>g\<close> and keeps the same elements in the registry. When \<open>g\<close> is
  below the single-precision limit the call returns normally and the gain stage of every
  chain in the registry holds the single-precision number nearest to \<open>g\<close>. At or beyond
  the limit the platform rejects the assignment: every chain is as before, and the call
  ends with a \<open>TypeError\<close> unless the registry is empty.
\<close>

theorem setGain_applies_to_every_chain:
  assumes "0 < g"
  shows "gainValue (fst (setGain (Number g) s)) = Number g \<and>
         map fst (mediaElements (fst (setGain (Number g) s))) = map fst (mediaElements s) \<and>
         (if g < float32_limit
          then snd (setGain (Number g) s) = None \<and>
               (\<forall>p \<in> set (mediaElements (fst (setGain (Number g) s))).
                  gainNode (snd p) = fround g)
          else mediaElements (fst (setGain (Number g) s)) = mediaElements s \<and>
               snd (setGain (Number g) s) =
                 (if mediaElements s = [] then None else Some TypeError))"
proof (cases "g < float32_limit")
  case True
  with assms have "to_float (Number g) = Inr (fround g)"
    by simp
  from setGain_accepted [OF this, of s] True show ?thesis
    by (simp add: setGain_gainValue setGain_keys)
next
  case False
  with assms have "to_float (Number g) = Inl TypeError"
    by simp
  from setGain_rejected [OF this, of s] False show ?thesis
    by (simp add: setGain_gainValue setGain_keys)
qed

theorem setGain_applies_to_every_chain_witness:
  "(0::real) < 3 \<and> (3::real) < float32_limit \<and>
   snd (setGain (Number 3) example_page) = None \<and>
   gainValue (fst (setGain (Number 3) example_page)) = Number 3 \<and>
   map fst (mediaElements (fst (setGain (Number 3) example_page))) = [3, 5] \<and>
   map (gainNode \<circ> snd) (mediaElements (fst (setGain (Number 3) example_page))) = [3, 3]"
proof -
  have "map (gainNode \<circ> snd) (mediaElements (fst (setGain (Number 3) example_page))) = [3, 3]"
    by (simp add: example_page_eq setGain_def resume_def float32_limit_def fround_3)
  with setGain_applies_to_every_chain [of 3 example_page] show ?thesis
    by (simp add: example_page_eq float32_limit_def)
qed

text \<open>
  The claim as written fails for a positive factor beyond the single-precision limit
  (the call throws and both gain stages stay at 1), and for a factor that is not a
  single-precision number (the gain stages hold the rounded value, not one tenth).
\<close>

theorem setGain_applies_to_every_chain_counterexample:
  "(0::real) < 10 ^ 39 \<and>
   snd (setGain (Number (10 ^ 39)) example_page) = Some TypeError \<and>
   map (gainNode \<circ> snd) (mediaElements (fst (setGain (Number (10 ^ 39)) example_page)))
     = [1, 1] \<and>
   (0::real) < 1 / 10 \<and>
   map (gainNode \<circ> snd) (mediaElements (fst (setGain (Number (1 / 10)) example_page)))
     = [13421773 / 134217728, 13421773 / 134217728]"
  by (simp add: example_page_eq setGain_def resume_def float32_limit_def fround_tenth)

text \<open>
  C2 (as amended). After \<open>setGain g\<close> with \<open>g\<close> positive, followed by any events none
  of which is a SET_GAIN request, take an element that is not yet registered and that
  the platform can bind. When \<open>g\<close> is below the single-precision limit, processing the
  element registers it with a chain whose gain stage holds the single-precision number
  nearest to \<open>g\<close>. At or beyond the limit no chain is registered for it, and the element
  is left bound.
\<close>

theorem new_chain_inherits_gain:
  assumes "0 < g"
    and "\<forall>ev \<in> set evs. \<not> is_SET_GAIN ev"
    and "s' = run evs (fst (setGain (Number g) s))"
    and "\<not> Map_has (mediaElements s') element"
    and "element \<notin> captured s'"
  shows "Map_get (mediaElements s') element = None \<and>
         (if g < float32_limit
          then \<exists>c. Map_get (mediaElements (processMediaElement element s')) element = Some c \<and>
                   gainNode c = fround g
          else Map_get (mediaElements (processMediaElement element s')) element = None \<and>
               element \<in> captured (processMediaElement element s'))"
proof -
  have gv: "gainValue s' = Number g"
    using assms(2,3) by (simp add: run_gainValue setGain_gainValue)
  have fresh: "element \<notin> set (map fst (mediaElements s'))"
    using assms(4) by (simp add: Map_has_def)
  show ?thesis
  proof (cases "g < float32_limit")
    case True
    with assms(1) gv have "to_float (gainValue s') = Inr (fround g)"
      by simp
    from processMediaElement_bindable [OF assms(4,5) this] fresh True show ?thesis
      by (simp add: Map_get_append_fresh Map_get_absent getAudioContext_frame)
  next
    case False
    with assms(1) gv have "to_float (gainValue s') = Inl TypeError"
      by simp
    from processMediaElement_rejected [OF assms(4,5) this] fresh False show ?thesis
      by (simp add: Map_get_absent getAudioContext_frame)
  qed
qed

theorem new_chain_inherits_gain_witness:
  "(0::real) < 3 \<and> \<not> list_ex is_SET_GAIN example_events \<and>
   \<not> Map_has (mediaElements (run example_events (fst (setGain (Number 3) example_page)))) 9 \<and>
   9 \<notin> captured (run example_events (fst (setGain (Number 3) example_page))) \<and>
   (\<exists>c. Map_get (mediaElements
           (processMediaElement 9
              (run example_events (fst (setGain (Number 3) example_page))))) 9 = Some c \<and>
        gainNode c = 3 \<and> gainNode c \<noteq> 1)"
proof -
  let ?s' = "run example_events (fst (setGain (Number 3) example_page))"
  have a: "(0::real) < 3" by simp
  have b: "\<forall>ev \<in> set example_events. \<not> is_SET_GAIN ev"
    by (simp add: example_events_def is_SET_GAIN_def)
  have keys: "map fst (mediaElements ?s') = [3, 5, 17]" and cap: "captured ?s' = {3, 5, 8, 17}"
    by (auto simp add: example_events_def example_page_eq run_defs eval_defs)
  have c: "\<not> Map_has (mediaElements ?s') 9"
    by (simp add: Map_has_def keys)
  have d: "9 \<notin> captured ?s'"
    by (simp add: cap)
  from new_chain_inherits_gain [OF a b refl c d] a b c d show ?thesis
    by (auto simp add: list_ex_iff float32_limit_def fround_3)
qed

text \<open>
  The claim as written fails after \<open>setGain\<close> of a positive factor beyond the
  single-precision limit on a page without chains (the call returns normally, and the
  next element is bound but never registered), and for one tenth (the new chain holds
  the rounded value).
\<close>

theorem new_chain_inherits_gain_counterexample:
  "(0::real) < 10 ^ 39 \<and>
   snd (setGain (Number (10 ^ 39)) owned_page) = None \<and>
   9 \<notin> captured (fst (setGain (Number (10 ^ 39)) owned_page)) \<and>
   mediaElements (processMediaElement 9 (fst (setGain (Number (10 ^ 39)) owned_page))) = [] \<and>
   map (gainNode \<circ> snd)
     (mediaElements (processMediaElement 9 (fst (setGain (Number (1 / 10)) owned_page))))
     = [13421773 / 134217728]"
  by (simp add: owned_page_eq setGain_def eval_defs fround_tenth)

text \<open>
  C3 (as amended). For every non-empty sequence of discovery calls on the same element,
  starting from a registry without duplicate keys, the element ends up in the registry
  at most once: exactly once when it was registered already, or when the platform can
  bind it and accepts the Gain State as a gain; not at all otherwise. Processing an
  element that is registered already leaves the whole state as it is.
\<close>

theorem discovery_idempotent:
  assumes "distinct (map fst (mediaElements s))" and "0 < n"
  shows "(Map_has (mediaElements s) e \<longrightarrow> processMediaElement e s = s) \<and>
         count_list (map fst (mediaElements (forEach (replicate n e) processMediaElement s))) e =
           (if Map_has (mediaElements s) e \<or> (e \<notin> captured s \<and> convertible (gainValue s))
            then 1 else 0)"
proof -
  obtain m where n: "n = Suc m"
    using assms(2) by (cases n) simp_all
  let ?after = "forEach (replicate n e) processMediaElement s"
  let ?t = "processMediaElement e s"
  have "count_list (map fst (mediaElements ?after)) e =
          (if Map_has (mediaElements s) e \<or> (e \<notin> captured s \<and> convertible (gainValue s))
           then 1 else 0)"
  proof (cases "Map_has (mediaElements s) e")
    case True
    then have "?after = s" by (rule repeat_registered)
    with True assms(1) show ?thesis
      by (simp add: count_list_distinct Map_has_def)
  next
    case False
    show ?thesis
    proof (cases "e \<in> captured s")
      case True
      with False have "mediaElements ?after = mediaElements s"
        by (rule repeat_unbindable)
      with False True assms(1) show ?thesis
        by (simp add: count_list_distinct Map_has_def)
    next
      case free: False
      show ?thesis
      proof (cases "convertible (gainValue s)")
        case True
        have keys: "map fst (mediaElements ?t) = map fst (mediaElements s) @ [e]"
          using False free True by (simp add: processMediaElement_keys)
        then have "Map_has (mediaElements ?t) e"
          by (simp add: Map_has_def)
        then have "forEach (replicate m e) processMediaElement ?t = ?t"
          by (rule repeat_registered)
        then have "?after = ?t"
          by (simp add: n)
        with keys False free True assms(1) show ?thesis
          by (simp add: count_list_distinct Map_has_def)
      next
        case rejected: False
        have keys: "map fst (mediaElements ?t) = map fst (mediaElements s)"
          using rejected by (simp add: processMediaElement_keys)
        then have "\<not> Map_has (mediaElements ?t) e"
          using False by (simp add: Map_has_def)
        moreover have "e \<in> captured ?t"
          using False by (simp add: processMediaElement_captured)
        ultimately have "mediaElements (forEach (replicate m e) processMediaElement ?t) =
            mediaElements ?t"
          by (rule repeat_unbindable)
        then have "map fst (mediaElements ?after) = map fst (mediaElements s)"
          by (simp add: n keys)
        with False free rejected assms(1) show ?thesis
          by (simp add: count_list_distinct Map_has_def)
      qed
    qed
  qed
  then show ?thesis
    by (simp add: processMediaElement_registered)
qed

theorem discovery_idempotent_witness:
  "distinct (map fst (mediaElements example_page)) \<and> (0::nat) < 2 \<and>
   Map_has (mediaElements example_page) 3 \<and>
   processMediaElement 3 example_page = example_page \<and>
   count_list (map fst
     (mediaElements (forEach (replicate 2 3) processMediaElement example_page))) 3 = 1"
proof -
  have d: "distinct (map fst (mediaElements example_page))"
    by (simp add: example_page_eq)
  have h: "Map_has (mediaElements example_page) 3"
    by (simp add: example_page_eq Map_has_def)
  from discovery_idempotent [OF d, of 2 3] h d show ?thesis
    by simp
qed

text \<open>
  The claim as written fails for an element the page has bound itself: after two
  discovery calls on element 7 it is not in the registry at all.
\<close>

theorem discovery_exactly_once_counterexample:
  "distinct (map fst (mediaElements owned_page)) \<and>
   count_list (map fst (mediaElements (forEach [7, 7] processMediaElement owned_page))) 7 \<noteq> 1"
  by (simp add: owned_page_eq eval_defs)

text \<open>
  C4. A request of an unrecognized kind: the listener never calls \<open>sendResponse\<close> and
  returns \<open>true\<close>, which keeps the channel waiting for a response that does not come.
\<close>

theorem unrecognized_request_gets_no_response:
  "listener \<lparr>msg_type = ''PING'', msg_value = Undefined\<rparr> example_page =
     (example_page, [], Inr True)"
  by (simp add: listener_def)

text \<open>
  C5 (as amended). When the element cannot be bound, the call returns normally after
  one line on the debug console; the registry, every chain, the Gain State, the set of
  bound elements and the requests to resume are as before. The shared context is as
  before when it existed, and is created, in the state the platform gives it, when it
  did not.
\<close>

theorem failed_bind_contained:
  assumes "\<not> Map_has (mediaElements s) element"
    and "createMediaElementSource (fst (getAudioContext s)) element (snd (getAudioContext s))
           = Inl error"
  shows "mediaElements (processMediaElement element s) = mediaElements s \<and>
         gainValue (processMediaElement element s) = gainValue s \<and>
         captured (processMediaElement element s) = captured s \<and>
         resumed (processMediaElement element s) = resumed s \<and>
         console (processMediaElement element s) = console s @ [error] \<and>
         (case audioContext s of
            Some c \<Rightarrow> processMediaElement element s = s\<lparr>console := console s @ [error]\<rparr>
          | None \<Rightarrow>
              audioContext (processMediaElement element s) = Some (length (contexts s)) \<and>
              contexts (processMediaElement element s) = contexts s @ [policy s])"
  using assms
  by (simp add: processMediaElement_def getAudioContext_def new_AudioContext_def
      createMediaElementSource_def split: option.splits if_splits)

theorem failed_bind_contained_witness:
  "\<not> Map_has (mediaElements owned_page) 7 \<and>
   createMediaElementSource (fst (getAudioContext owned_page)) 7
       (snd (getAudioContext owned_page)) = Inl InvalidStateError \<and>
   mediaElements (processMediaElement 7 owned_page) = [] \<and>
   gainValue (processMediaElement 7 owned_page) = Number 1 \<and>
   console (processMediaElement 7 owned_page) = [InvalidStateError]"
proof -
  have a: "\<not> Map_has (mediaElements owned_page) 7"
    by (simp add: owned_page_eq Map_has_def)
  have b: "createMediaElementSource (fst (getAudioContext owned_page)) 7
       (snd (getAudioContext owned_page)) = Inl InvalidStateError"
    by (simp add: owned_page_eq eval_defs)
  from failed_bind_contained [OF a b] a b show ?thesis
    by (simp add: owned_page_eq)
qed

text \<open>
  The claim as written fails where no context exists yet: the failed attempt on
  element 7 constructs the shared context and stores it in \<open>audioContext\<close>.
\<close>

theorem failed_bind_changes_state_counterexample:
  "createMediaElementSource (fst (getAudioContext owned_page)) 7
       (snd (getAudioContext owned_page)) = Inl InvalidStateError \<and>
   audioContext owned_page = None \<and> length (contexts owned_page) = 0 \<and>
   audioContext (processMediaElement 7 owned_page) = Some 0 \<and>
   length (contexts (processMediaElement 7 owned_page)) = 1 \<and>
   processMediaElement 7 owned_page \<noteq> owned_page"
  by (simp add: owned_page_eq eval_defs)

text \<open>
  C6. A video element inserted into an XML (XHTML) document as the added node itself:
  the selector used by the startup scan and for descendants matches it, but its
  \<open>nodeName\<close> is \<open>video\<close>, not \<open>VIDEO\<close>, so the test made on the added node itself
  fails and the callback leaves the state as it is. The same element inside an inserted
  container is found and registered.
\<close>

theorem inserted_xhtml_video_is_missed:
  "document_querySelectorAll [xhtml_video] = [20] \<and>
   observer_callback [\<lparr>addedNodes = [xhtml_video]\<rparr>] example_page = example_page \<and>
   map fst (mediaElements
     (observer_callback [\<lparr>addedNodes = [Element ''div'' ''div'' 21 [xhtml_video]]\<rparr>]
        example_page)) = [3, 5, 20]"
  by (simp add: xhtml_video_def example_page_eq run_defs eval_defs)

text \<open>
  C7. In every state the script can reach from its constructor, at most one context has
  been constructed and \<open>audioContext\<close> refers to it exactly when it exists;
  \<open>getAudioContext\<close> constructs it when there is none and returns the existing one,
  leaving the state alone, otherwise; \<open>setGain\<close> neither constructs nor replaces a
  context and leaves the states of the contexts alone: it calls \<open>resume()\<close> on the
  existing context when that is suspended, and makes no call otherwise. (When the
  context then runs is the platform's.)
\<close>

theorem single_shared_pipeline:
  assumes "s = run evs (constructor document owned initial)"
  shows "length (contexts s) \<le> 1 \<and>
         audioContext s = (if contexts s = [] then None else Some 0) \<and>
         (case audioContext s of
            None \<Rightarrow> getAudioContext s =
                      (0, s\<lparr>contexts := [policy s], audioContext := Some 0\<rparr>)
          | Some c \<Rightarrow> getAudioContext s = (c, s)) \<and>
         audioContext (fst (setGain g s)) = audioContext s \<and>
         contexts (fst (setGain g s)) = contexts s \<and>
         (\<forall>c. audioContext s = Some c \<and> contexts s ! c = Suspended \<longrightarrow>
              resumed (fst (setGain g s)) = resumed s @ [c]) \<and>
         (\<forall>c. audioContext s = Some c \<and> contexts s ! c \<noteq> Suspended \<longrightarrow>
              resumed (fst (setGain g s)) = resumed s) \<and>
         (audioContext s = None \<longrightarrow>
              resumed (fst (setGain g s)) = resumed s \<and> contexts (fst (setGain g s)) = [])"
proof -
  have inv: "one_pipeline s"
    unfolding assms by (intro one_pipeline_run one_pipeline_constructor)
  have len: "length (contexts s) \<le> 1"
    and ref: "audioContext s = (if contexts s = [] then None else Some 0)"
    using inv by (simp_all add: one_pipeline_def)
  have access: "(case audioContext s of
            None \<Rightarrow> getAudioContext s =
                      (0, s\<lparr>contexts := [policy s], audioContext := Some 0\<rparr>)
          | Some c \<Rightarrow> getAudioContext s = (c, s))"
  proof (cases "audioContext s")
    case None
    with ref have "contexts s = []"
      by (simp split: if_splits)
    with None show ?thesis
      by (simp add: getAudioContext_def new_AudioContext_def)
  next
    case (Some c)
    then show ?thesis
      by (simp add: getAudioContext_def)
  qed
  have frame: "audioContext (fst (setGain g s)) = audioContext s"
    "contexts (fst (setGain g s)) = contexts s"
    by (rule setGain_frame)+
  have r1: "resumed (fst (setGain g s)) = resumed s @ [c]"
    if "audioContext s = Some c \<and> contexts s ! c = Suspended" for c
    using that by (simp add: setGain_resumed)
  have r2: "resumed (fst (setGain g s)) = resumed s"
    if "audioContext s = Some c \<and> contexts s ! c \<noteq> Suspended" for c
    using that by (simp add: setGain_resumed)
  have r3: "resumed (fst (setGain g s)) = resumed s \<and> contexts (fst (setGain g s)) = []"
    if "audioContext s = None"
  proof -
    from that ref have "contexts s = []"
      by (simp split: if_splits)
    with that show ?thesis
      by (simp add: setGain_resumed frame)
  qed
  from len ref access frame r1 r2 r3 show ?thesis
    by blast
qed

theorem single_shared_pipeline_witness:
  "audioContext (constructor [Element ''HTML'' ''html'' 1 []] {} Suspended) = None \<and>
   audioContext (run example_events (constructor example_document {} Suspended)) = Some 0 \<and>
   contexts (run (example_events @ [HostContextState 0 Suspended])
      (constructor example_document {} Suspended)) = [Suspended] \<and>
   contexts (fst (setGain (Number 2) (run (example_events @ [HostContextState 0 Suspended])
      (constructor example_document {} Suspended)))) = [Suspended] \<and>
   resumed (fst (setGain (Number 2) (run (example_events @ [HostContextState 0 Suspended])
      (constructor example_document {} Suspended)))) = [0] \<and>
   resumed (fst (setGain (Number 2)
      (run example_events (constructor example_document {} Suspended)))) = [] \<and>
   getAudioContext (run example_events (constructor example_document {} Suspended)) =
     (0, run example_events (constructor example_document {} Suspended))"
proof -
  let ?s = "run example_events (constructor example_document {} Suspended)"
  let ?t = "run (example_events @ [HostContextState 0 Suspended])
      (constructor example_document {} Suspended)"
  have s: "contexts ?s = [Running]" "resumed ?s = []"
    and t: "contexts ?t = [Suspended]" "resumed ?t = []"
    by (simp_all add: example_events_def example_document_def run_defs eval_defs)
  have e: "audioContext (constructor [Element ''HTML'' ''html'' 1 []] {} Suspended) = None"
    by (simp add: eval_defs)
  from single_shared_pipeline [OF refl, where g = "Number 2" and evs = example_events
      and document = example_document and owned = "{}" and initial = Suspended]
    single_shared_pipeline [OF refl, where g = "Number 2"
      and evs = "example_events @ [HostContextState 0 Suspended]"
      and document = example_document and owned = "{}" and initial = Suspended] s t e
  show ?thesis
    by (simp split: option.splits)
qed

text \<open>
  C8. A GET_STATUS request is answered once, with the current Gain State and the
  current size of the registry, and the state after it is the state before it.
\<close>

theorem get_status_is_pure:
  assumes "msg_type m = ''GET_STATUS''"
  shows "listener m s =
           (s, [StatusResponse (gainValue s) (length (mediaElements s))], Inr True)"
  using assms by (simp add: listener_def getMediaCount_def Map_size_def)

theorem get_status_is_pure_witness:
  "listener \<lparr>msg_type = ''GET_STATUS'', msg_value = Undefined\<rparr> example_page =
     (example_page, [StatusResponse (Number 1) 2], Inr True)"
  using get_status_is_pure [of "\<lparr>msg_type = ''GET_STATUS'', msg_value = Undefined\<rparr>"
      example_page]
  by (simp add: example_page_eq)






end
